theory Spec2Isabelle
  imports Main "HOL-Library.Word"
begin

unbundle bit_operations_syntax

section \<open>Toolkit values used by \<open>src/item/itemwidget.cpp\<close>\<close>

text \<open>
  The item widget code is written against the Qt toolkit. Toolkit objects are modelled
  by the state the code reads and writes; every toolkit call that changes something
  outside that state (opening a link, copying to the clipboard, writing to the item
  model, resizing a widget) is recorded in a log, in the order the code makes the calls.
  A C++ \<open>int\<close> and a Qt flag set are 32-bit words. A \<open>QString\<close> is a \<open>string\<close>
  (code points below 256) and a \<open>QByteArray\<close> is a \<open>string\<close> read as bytes.
\<close>

type_synonym cint = "32 word"
type_synonym qstring = string
type_synonym qbytearray = string

datatype qpoint = QPoint cint cint

record qsize =
  width :: cint
  height :: cint

text \<open>\<open>QString::toUtf8\<close>, on the code points a \<open>char\<close> can hold.\<close>

definition utf8_of_char :: "char \<Rightarrow> qbytearray" where
  "utf8_of_char c =
     (let n = (of_char c :: nat)
      in if n < 128 then [c]
         else [char_of (192 + n div 64), char_of (128 + n mod 64)])"

definition toUtf8 :: "qstring \<Rightarrow> qbytearray" where
  "toUtf8 s = concat (map utf8_of_char s)"

text \<open>\<open>QByteArray::toBase64\<close>: the standard alphabet, padded with \<open>=\<close>.\<close>

definition base64_alphabet :: string where
  "base64_alphabet =
     ''ABCDEFGHIJKLMNOPQRSTUVWXYZabcdefghijklmnopqrstuvwxyz0123456789+/''"

definition base64_digit :: "nat \<Rightarrow> char" where
  "base64_digit n = base64_alphabet ! (n mod 64)"

fun base64_groups :: "nat list \<Rightarrow> string" where
  "base64_groups [] = []"
| "base64_groups [a] =
     [base64_digit (a div 4), base64_digit ((a mod 4) * 16), CHR ''='', CHR ''='']"
| "base64_groups [a, b] =
     [base64_digit (a div 4), base64_digit ((a mod 4) * 16 + b div 16),
      base64_digit ((b mod 16) * 4), CHR ''='']"
| "base64_groups (a # b # c # rest) =
     [base64_digit (a div 4), base64_digit ((a mod 4) * 16 + b div 16),
      base64_digit ((b mod 16) * 4 + c div 64), base64_digit (c mod 64)]
     @ base64_groups rest"

definition toBase64 :: "qbytearray \<Rightarrow> qbytearray" where
  "toBase64 bytes = base64_groups (map of_char bytes)"

subsection \<open>Highlight specification\<close>

text \<open>
  \<open>QRegExp::operator==\<close> compares the pattern, its syntax, the case sensitivity and
  the minimal flag; that is equality of this record.
\<close>

datatype case_sensitivity = CaseInsensitive | CaseSensitive

datatype pattern_syntax = RegExp | Wildcard | FixedString | RegExp2 | WildcardUnix | W3CXmlSchema11

record qregexp =
  pattern :: qstring
  patternSyntax :: pattern_syntax
  caseSensitivity :: case_sensitivity
  minimal :: bool

text \<open>The default-constructed \<open>QRegExp()\<close>.\<close>

definition QRegExp_default :: qregexp where
  "QRegExp_default =
     \<lparr>pattern = [], patternSyntax = RegExp, caseSensitivity = CaseSensitive, minimal = False\<rparr>"

record qfont =
  family :: qstring
  pointSize :: cint
  bold :: bool
  italic :: bool

record qpalette =
  highlightColor :: "32 word"
  highlightedTextColor :: "32 word"

subsection \<open>Widgets\<close>

datatype focus_policy = NoFocus | TabFocus | ClickFocus | StrongFocus | WheelFocus

text \<open>The geometry calls the code makes on a widget, in order.\<close>

datatype geometry_call =
    SetMaximumSize qsize
  | Resize qsize
  | SetFixedSize cint cint

text \<open>
  The display widget an \<open>ItemWidget\<close> owns. \<open>heightForWidth\<close> and \<open>sizeHint\<close> are
  the answers of the widget's own (virtual) functions; they are the widget's own and
  do not change with the geometry calls made on it.
\<close>

record qwidget =
  objectName :: qstring
  focusPolicy :: focus_policy
  acceptDrops :: bool
  transparentForMouseEvents :: bool
  heightForWidth :: "cint \<Rightarrow> cint"
  sizeHint :: qsize
  geometryCalls :: "geometry_call list"

subsection \<open>Text documents and the rich-text surface\<close>

datatype format_type = InvalidFormat | BlockFormat | CharFormat | ListFormat | FrameFormat | UserFormat

record text_format =
  formatType :: format_type
  formatProperties :: "(cint \<times> qstring) list"

text \<open>
  A \<open>QTextDocument\<close> as the code observes it: \<open>plainText\<close> is what \<open>toPlainText()\<close>
  returns, \<open>richHtml\<close> what \<open>toHtml()\<close> returns, \<open>allFormats\<close> the vector
  \<open>allFormats()\<close> returns, \<open>isModified\<close> the change-tracking flag.
\<close>

record text_document =
  plainText :: qstring
  richHtml :: qstring
  allFormats :: "text_format list"
  isModified :: bool

text \<open>A \<open>QTextCursor\<close>: it has a selection when anchor and position differ.\<close>

record text_cursor =
  anchor :: nat
  position :: nat

definition hasSelection :: "text_cursor \<Rightarrow> bool" where
  "hasSelection c = (anchor c \<noteq> position c)"

datatype cursor_shape = ArrowCursor | IBeamCursor | PointingHandCursor

text \<open>The default-constructed \<open>QCursor()\<close> is the arrow.\<close>

definition QCursor_default :: cursor_shape where
  "QCursor_default = ArrowCursor"

datatype frame_shape = NoFrame | StyledPanel

text \<open>\<open>Qt::TextInteractionFlag\<close> and \<open>Qt::KeyboardModifier\<close> bits.\<close>

definition TextSelectableByMouse :: "32 word" where
  "TextSelectableByMouse = 1"

definition TextSelectableByKeyboard :: "32 word" where
  "TextSelectableByKeyboard = 2"

definition LinksAccessibleByMouse :: "32 word" where
  "LinksAccessibleByMouse = 4"

definition LinksAccessibleByKeyboard :: "32 word" where
  "LinksAccessibleByKeyboard = 8"

definition TextEditable :: "32 word" where
  "TextEditable = 16"

definition TextEditorInteraction :: "32 word" where
  "TextEditorInteraction = TextSelectableByMouse OR TextSelectableByKeyboard OR TextEditable"

definition ShiftModifier :: "32 word" where
  "ShiftModifier = 0x02000000"

text \<open>
  A \<open>QTextEdit\<close>. \<open>anchorAt\<close> and \<open>cursorForPosition\<close> are the hit tests of the
  laid-out document: the link target under a point (empty when there is none) and the
  caret a click at a point gives. They are fixed for a surface: moving the caret or
  changing the interaction flags does not change what lies under a point.
\<close>

record text_edit =
  document :: text_document
  textCursor :: text_cursor
  textInteractionFlags :: "32 word"
  mouseTracking :: bool
  viewportCursor :: cursor_shape
  frameShape :: frame_shape
  anchorAt :: "qpoint \<Rightarrow> qstring"
  cursorForPosition :: "qpoint \<Rightarrow> text_cursor"

text \<open>\<open>QTextEdit::selectAll\<close>: the selection runs from the start to the end of the text.\<close>

definition selectAll :: "text_edit \<Rightarrow> text_edit" where
  "selectAll e = e\<lparr>textCursor := \<lparr>anchor = 0, position = length (plainText (document e))\<rparr>\<rparr>"

text \<open>
  What \<open>QTextEdit::setPlainText\<close> and \<open>QTextEdit::setHtml\<close> make of an editor is the
  toolkit's business (how many formats a document built from a text carries is not
  decided in this repository), so both are parameters of the model.
\<close>

record toolkit =
  setPlainText :: "qstring \<Rightarrow> text_edit \<Rightarrow> text_edit"
  setHtml :: "qstring \<Rightarrow> text_edit \<Rightarrow> text_edit"

text \<open>
  A \<open>QWidget *\<close> handed in as an editor: null, some widget that is not a text edit, or
  a text edit (the \<open>TextEdit\<close> of this file is one). \<open>qobject_cast<QTextEdit *>\<close>
  gives the text edit or null.
\<close>

datatype editor_ptr = NullWidget | OtherWidget qwidget | TextEditWidget text_edit

fun qobject_cast_QTextEdit :: "editor_ptr \<Rightarrow> text_edit option" where
  "qobject_cast_QTextEdit (TextEditWidget e) = Some e"
| "qobject_cast_QTextEdit _ = None"

text \<open>\<open>QTextEdit::document()\<close> as a pointer; a text edit always has a document.\<close>

definition document_ptr :: "text_edit \<Rightarrow> text_document option" where
  "document_ptr e = Some (document e)"

subsection \<open>The item model\<close>

text \<open>
  The roles the code reads and writes: \<open>Qt::EditRole\<close> and the \<open>contentType\<close> roles
  \<open>hasHtml\<close>, \<open>html\<close> and \<open>updateData\<close>.
\<close>

datatype item_role = EditRole | ContentHasHtml | ContentHtml | ContentUpdateData

datatype qvariant =
    VInvalid
  | VString qstring
  | VByteArray qbytearray
  | VMap "qstring \<Rightarrow> qvariant option"

text \<open>
  A \<open>QModelIndex\<close> with what the code reads from it:
  \<open>index.data(contentType::hasHtml).toBool()\<close>, \<open>index.data(contentType::html).toString()\<close>
  and \<open>index.data(Qt::EditRole).toString()\<close>.
\<close>

record model_index =
  row :: cint
  hasHtmlData :: bool
  htmlData :: qstring
  editRoleData :: qstring

text \<open>One call of \<open>QAbstractItemModel::setData(index, value, role)\<close>.\<close>

datatype model_write = SetData model_index qvariant item_role

text \<open>The item model: the writes it has received, oldest first.\<close>

record item_model =
  writes :: "model_write list"

definition setData :: "model_index \<Rightarrow> qvariant \<Rightarrow> item_role \<Rightarrow> item_model \<Rightarrow> item_model" where
  "setData index v role m = m\<lparr>writes := writes m @ [SetData index v role]\<rparr>"

subsection \<open>Clipboard payloads\<close>

text \<open>A \<open>QMimeData\<close>: the bytes offered for each format name.\<close>

record qmimedata =
  formatData :: "qstring \<Rightarrow> qbytearray option"
  hasImage :: bool

definition hasFormat :: "qmimedata \<Rightarrow> qstring \<Rightarrow> bool" where
  "hasFormat d f = (formatData d f \<noteq> None)"

text \<open>\<open>QMimeData::data\<close>: the bytes of a format, empty when the format is not offered.\<close>

definition mimeData :: "qmimedata \<Rightarrow> qstring \<Rightarrow> qbytearray" where
  "mimeData d f = (case formatData d f of None \<Rightarrow> [] | Some bytes \<Rightarrow> bytes)"

subsection \<open>Mouse events\<close>

datatype event_type =
    Enter
  | MouseButtonPress
  | MouseButtonDblClick
  | MouseMove
  | MouseButtonRelease
  | OtherEvent

datatype mouse_button = NoButton | LeftButton | RightButton | MiddleButton

text \<open>
  An event as \<open>filterMouseEvents\<close> receives it. The toolkit delivers the four mouse
  types as \<open>QMouseEvent\<close> objects; for the other types the mouse fields are never read.
\<close>

record qevent =
  eventType :: event_type
  modifiers :: "32 word"
  button :: mouse_button
  eventPos :: qpoint
  accepted :: bool

section \<open>The anonymous helpers of \<open>itemwidget.cpp\<close>\<close>

text \<open>\<open>canMouseInteract\<close>: the event carries the Shift modifier.\<close>

definition canMouseInteract :: "qevent \<Rightarrow> bool" where
  "canMouseInteract event = (modifiers event AND ShiftModifier \<noteq> 0)"

text \<open>\<open>containsRichText\<close>: \<open>document.allFormats().size() > 3\<close>.\<close>

definition containsRichText :: "text_document \<Rightarrow> bool" where
  "containsRichText doc = (length (allFormats doc) > 3)"

text \<open>
  \<open>findImageFormat\<close>: the loop over the initializer list returns the first format the
  payload has; after the loop the empty \<open>QString()\<close> is returned.
\<close>

definition imageFormats :: "qstring list" where
  "imageFormats =
     [''image/svg+xml'', ''image/png'', ''image/bmp'', ''image/jpeg'', ''image/gif'']"

fun findImageFormat_loop :: "qmimedata \<Rightarrow> qstring list \<Rightarrow> qstring" where
  "findImageFormat_loop d [] = []"
| "findImageFormat_loop d (format # rest) =
     (if hasFormat d format then format else findImageFormat_loop d rest)"

definition findImageFormat :: "qmimedata \<Rightarrow> qstring" where
  "findImageFormat d = findImageFormat_loop d imageFormats"

subsection \<open>\<open>TextEdit\<close>: pasting and dropping images\<close>

text \<open>
  \<open>canInsertFromMimeData\<close>; \<open>base\<close> is the answer of
  \<open>QTextEdit::canInsertFromMimeData(source)\<close>.
\<close>

definition canInsertFromMimeData :: "qmimedata \<Rightarrow> bool \<Rightarrow> bool" where
  "canInsertFromMimeData source base = (hasImage source \<or> base)"

text \<open>
  What \<open>insertFromMimeData\<close> does with a payload: it inserts a fragment of html at the
  caret, or it hands the payload to \<open>QTextEdit::insertFromMimeData\<close>.
\<close>

datatype paste_action = InsertHtml qstring | DefaultInsertFromMimeData qmimedata

definition imgTag :: "qstring \<Rightarrow> qbytearray \<Rightarrow> qstring" where
  "imgTag mime imageData =
     ''<img src='' @ [CHR 0x22] @ ''data:'' @ mime @ '';base64,'' @ toBase64 imageData
       @ [CHR 0x22] @ '' />''"

definition insertFromMimeData :: "qmimedata \<Rightarrow> paste_action" where
  "insertFromMimeData source =
     (let mime = findImageFormat source
      in if mime \<noteq> [] then
           (let imageData = mimeData source mime
            in InsertHtml (imgTag mime imageData))
         else DefaultInsertFromMimeData source)"

section \<open>\<open>ItemWidget\<close>\<close>

text \<open>
  The members \<open>m_re\<close> and \<open>m_widget\<close>, and the calls of the virtual \<open>highlight\<close>
  made so far, oldest first.
\<close>

record item_widget =
  m_re :: qregexp
  m_widget :: qwidget
  highlightCalls :: "(qregexp \<times> qfont \<times> qpalette) list"

definition ItemWidget_new :: "qwidget \<Rightarrow> item_widget" where
  "ItemWidget_new widget =
     \<lparr>m_re = QRegExp_default,
      m_widget = widget
        \<lparr>objectName := ''item'',
         focusPolicy := NoFocus,
         acceptDrops := False,
         geometryCalls := geometryCalls widget @ [SetMaximumSize \<lparr>width = 2048, height = 2048\<rparr>]\<rparr>,
      highlightCalls = []\<rparr>"

definition highlight :: "qregexp \<Rightarrow> qfont \<Rightarrow> qpalette \<Rightarrow> item_widget \<Rightarrow> item_widget" where
  "highlight re highlightFont highlightPalette w =
     w\<lparr>highlightCalls := highlightCalls w @ [(re, highlightFont, highlightPalette)]\<rparr>"

definition setHighlight :: "qregexp \<Rightarrow> qfont \<Rightarrow> qpalette \<Rightarrow> item_widget \<Rightarrow> item_widget" where
  "setHighlight re highlightFont highlightPalette w =
     (if m_re w = re then w
      else highlight re highlightFont highlightPalette (w\<lparr>m_re := re\<rparr>))"

text \<open>
  \<open>createEditor\<close>; \<open>fresh\<close> is the text edit \<open>new TextEdit(parent)\<close> constructs.
\<close>

definition createEditor :: "text_edit \<Rightarrow> editor_ptr" where
  "createEditor fresh = TextEditWidget (fresh\<lparr>frameShape := NoFrame\<rparr>)"

definition setEditorData :: "toolkit \<Rightarrow> editor_ptr \<Rightarrow> model_index \<Rightarrow> editor_ptr" where
  "setEditorData tk editor index =
     (case qobject_cast_QTextEdit editor of
        None \<Rightarrow> editor
      | Some textEdit \<Rightarrow>
          TextEditWidget
            (selectAll
               (if hasHtmlData index then setHtml tk (htmlData index) textEdit
                else setPlainText tk (editRoleData index) textEdit)))"

definition setModelData ::
  "editor_ptr \<Rightarrow> item_model \<Rightarrow> model_index \<Rightarrow> editor_ptr \<times> item_model" where
  "setModelData editor model index =
     (case qobject_cast_QTextEdit editor of
        None \<Rightarrow> (editor, model)
      | Some textEdit \<Rightarrow>
          (let model1 = setData index (VString []) EditRole model;
               data0 = Map.empty(''text/plain'' \<mapsto> VByteArray (toUtf8 (plainText (document textEdit))));
               data1 = (if containsRichText (document textEdit)
                        then data0(''text/html'' \<mapsto> VByteArray (toUtf8 (richHtml (document textEdit))))
                        else data0);
               model2 = setData index (VMap data1) ContentUpdateData model1
           in (TextEditWidget (textEdit\<lparr>document := (document textEdit)\<lparr>isModified := False\<rparr>\<rparr>),
               model2)))"

definition hasChanges :: "editor_ptr \<Rightarrow> bool" where
  "hasChanges editor =
     (case qobject_cast_QTextEdit editor of
        None \<Rightarrow> False
      | Some textEdit \<Rightarrow>
          (case document_ptr textEdit of
             None \<Rightarrow> False
           | Some doc \<Rightarrow> isModified doc))"

definition geometryCall :: "geometry_call \<Rightarrow> qwidget \<Rightarrow> qwidget" where
  "geometryCall c w = w\<lparr>geometryCalls := geometryCalls w @ [c]\<rparr>"

definition updateSize :: "qsize \<Rightarrow> cint \<Rightarrow> item_widget \<Rightarrow> item_widget" where
  "updateSize maximumSize idealWidth iw =
     (let w = geometryCall (SetMaximumSize maximumSize) (m_widget iw);
          idealHeight = heightForWidth w idealWidth;
          maximumHeight = heightForWidth w (width maximumSize)
      in iw\<lparr>m_widget :=
           (if sint idealHeight \<le> 0 \<and> sint maximumHeight \<le> 0
              then geometryCall (Resize (sizeHint w)) w
            else if idealHeight \<noteq> maximumHeight
              then geometryCall (SetFixedSize (width maximumSize) maximumHeight) w
            else geometryCall (SetFixedSize idealWidth idealHeight) w)\<rparr>)"

definition setCurrent :: "bool \<Rightarrow> item_widget \<Rightarrow> item_widget" where
  "setCurrent current iw =
     iw\<lparr>m_widget := (m_widget iw)\<lparr>transparentForMouseEvents := \<not> current\<rparr>\<rparr>"

subsection \<open>\<open>filterMouseEvents\<close>\<close>

text \<open>
  What reaches the outside of the text edit: \<open>QDesktopServices::openUrl\<close> and
  \<open>QTextEdit::copy\<close>.
\<close>

datatype effect = OpenUrl qstring | CopyToClipboard

text \<open>
  The \<open>switch\<close> either returns at once or breaks with the value of
  \<open>allowMouseInteraction\<close>.
\<close>

datatype switch_exit = Return bool | Break bool

definition pressCase :: "text_edit \<Rightarrow> qevent \<Rightarrow> switch_exit \<times> text_edit \<times> effect list" where
  "pressCase edit e =
     (if \<not> canMouseInteract e then (Break False, edit, [])
      else if button e = LeftButton
        then (Break True, edit\<lparr>textCursor := cursorForPosition edit (eventPos e)\<rparr>, [])
      else (Break True, edit, []))"

definition filterSwitch :: "text_edit \<Rightarrow> qevent \<Rightarrow> switch_exit \<times> text_edit \<times> effect list" where
  "filterSwitch edit event =
     (case eventType event of
        Enter \<Rightarrow>
          (Return False, edit\<lparr>mouseTracking := True, viewportCursor := QCursor_default\<rparr>, [])
      | MouseButtonPress \<Rightarrow> pressCase edit event
      | MouseButtonDblClick \<Rightarrow> pressCase edit event
      | MouseMove \<Rightarrow>
          (if \<not> canMouseInteract event then (Break False, edit, [])
           else (Break True, edit, []))
      | MouseButtonRelease \<Rightarrow>
          (if canMouseInteract event \<and> hasSelection (textCursor edit)
           then (Break False, edit, [CopyToClipboard])
           else (Break False, edit, []))
      | OtherEvent \<Rightarrow> (Return False, edit, []))"

definition updateInteractionFlags :: "bool \<Rightarrow> text_edit \<Rightarrow> text_edit" where
  "updateInteractionFlags allowMouseInteraction edit =
     (let flags = textInteractionFlags edit
      in edit\<lparr>textInteractionFlags :=
           (if allowMouseInteraction
            then (flags OR TextSelectableByMouse) OR LinksAccessibleByMouse
            else (flags AND NOT TextSelectableByMouse) AND NOT LinksAccessibleByMouse)\<rparr>)"

record filter_outcome =
  handled :: bool
  editAfter :: text_edit
  eventAfter :: qevent
  effects :: "effect list"

definition filterMouseEvents :: "text_edit \<Rightarrow> qevent \<Rightarrow> filter_outcome" where
  "filterMouseEvents edit event =
     (case filterSwitch edit event of
        (Return r, edit1, fx) \<Rightarrow>
          \<lparr>handled = r, editAfter = edit1, eventAfter = event, effects = fx\<rparr>
      | (Break allowMouseInteraction, edit1, fx) \<Rightarrow>
          (let edit2 = updateInteractionFlags allowMouseInteraction edit1;
               type = eventType event
           in if type = MouseButtonPress \<or> type = MouseMove then
                (if allowMouseInteraction then
                   (let anchor = anchorAt edit2 (eventPos event)
                    in if anchor = [] then
                         \<lparr>handled = False, editAfter = edit2\<lparr>viewportCursor := IBeamCursor\<rparr>,
                          eventAfter = event, effects = fx\<rparr>
                       else if type = MouseButtonPress then
                         \<lparr>handled = True, editAfter = edit2\<lparr>viewportCursor := PointingHandCursor\<rparr>,
                          eventAfter = event\<lparr>accepted := True\<rparr>,
                          effects = fx @ [OpenUrl anchor]\<rparr>
                       else
                         \<lparr>handled = False, editAfter = edit2\<lparr>viewportCursor := PointingHandCursor\<rparr>,
                          eventAfter = event, effects = fx\<rparr>)
                 else
                   \<lparr>handled = False, editAfter = edit2\<lparr>viewportCursor := QCursor_default\<rparr>,
                    eventAfter = event, effects = fx\<rparr>)
              else
                \<lparr>handled = False, editAfter = edit2, eventAfter = event, effects = fx\<rparr>))"

section \<open>Example values\<close>

text \<open>
  Concrete inputs on which the theorems below are instantiated. The example toolkit
  is a stand-in that fills the toolkit parameter; it makes no statement about what the
  real toolkit does with a text.
\<close>

definition example_formats :: "text_format list" where
  "example_formats =
     [\<lparr>formatType = CharFormat, formatProperties = []\<rparr>,
      \<lparr>formatType = BlockFormat, formatProperties = []\<rparr>,
      \<lparr>formatType = FrameFormat, formatProperties = []\<rparr>]"

definition example_toolkit :: toolkit where
  "example_toolkit =
     \<lparr>setPlainText = (\<lambda>text e. e\<lparr>document :=
          \<lparr>plainText = text, richHtml = ''<p>'' @ text @ ''</p>'',
           allFormats = example_formats, isModified = False\<rparr>\<rparr>),
      setHtml = (\<lambda>html e. e\<lparr>document :=
          \<lparr>plainText = html, richHtml = html,
           allFormats = \<lparr>formatType = CharFormat, formatProperties = [(1, ''bold'')]\<rparr> # example_formats,
           isModified = False\<rparr>\<rparr>)\<rparr>"

text \<open>An edited surface: bold text, four formats, a link under the point (10, 10), a selection.\<close>

definition example_edit :: text_edit where
  "example_edit =
     \<lparr>document =
        \<lparr>plainText = ''abc'', richHtml = ''<b>abc</b>'',
         allFormats = \<lparr>formatType = CharFormat, formatProperties = [(1, ''bold'')]\<rparr> # example_formats,
         isModified = True\<rparr>,
      textCursor = \<lparr>anchor = 0, position = 3\<rparr>,
      textInteractionFlags = TextEditorInteraction OR LinksAccessibleByMouse,
      mouseTracking = False,
      viewportCursor = IBeamCursor,
      frameShape = NoFrame,
      anchorAt = (\<lambda>p. if p = QPoint 10 10 then ''http://example.com'' else []),
      cursorForPosition = (\<lambda>p. \<lparr>anchor = 1, position = 1\<rparr>)\<rparr>"

definition example_index :: model_index where
  "example_index = \<lparr>row = 0, hasHtmlData = False, htmlData = [], editRoleData = ''abc''\<rparr>"

definition example_model :: item_model where
  "example_model = \<lparr>writes = []\<rparr>"

definition example_event :: "event_type \<Rightarrow> 32 word \<Rightarrow> qevent" where
  "example_event t mods =
     \<lparr>eventType = t, modifiers = mods, button = LeftButton, eventPos = QPoint 10 10,
      accepted = False\<rparr>"

definition example_widget :: qwidget where
  "example_widget =
     \<lparr>objectName = [], focusPolicy = StrongFocus, acceptDrops = True,
      transparentForMouseEvents = False,
      heightForWidth = (\<lambda>w. if w = 100 then 40 else 20),
      sizeHint = \<lparr>width = 80, height = 20\<rparr>,
      geometryCalls = []\<rparr>"

definition example_regexp :: qregexp where
  "example_regexp =
     \<lparr>pattern = ''abc'', patternSyntax = RegExp, caseSensitivity = CaseInsensitive, minimal = False\<rparr>"

definition example_font :: "bool \<Rightarrow> qfont" where
  "example_font b = \<lparr>family = ''Sans'', pointSize = 10, bold = b, italic = False\<rparr>"

definition example_palette :: qpalette where
  "example_palette = \<lparr>highlightColor = 0xFFFF00, highlightedTextColor = 0\<rparr>"

text \<open>A payload offering a PNG and a JPEG representation (the first bytes of each).\<close>

definition example_payload :: qmimedata where
  "example_payload =
     \<lparr>formatData = [''image/jpeg'' \<mapsto> [char_of (255::nat), char_of (216::nat)],
                    ''image/png'' \<mapsto> [char_of (137::nat), CHR ''P'', CHR ''N'', CHR ''G'']],
      hasImage = True\<rparr>"

definition example_text_payload :: qmimedata where
  "example_text_payload = \<lparr>formatData = [''text/plain'' \<mapsto> ''abc''], hasImage = False\<rparr>"

section \<open>Helper facts\<close>

lemma cleared_flags_selectable:
  "((flags AND NOT TextSelectableByMouse) AND NOT LinksAccessibleByMouse) AND TextSelectableByMouse = 0"
  by (auto simp: bit_eq_iff bit_and_iff bit_not_iff)

lemma cleared_flags_links:
  "((flags AND NOT TextSelectableByMouse) AND NOT LinksAccessibleByMouse) AND LinksAccessibleByMouse = 0"
  by (simp add: bit_eq_iff bit_and_iff bit_not_iff)

lemma findImageFormat_loop_first:
  "findImageFormat_loop d fs = (case filter (hasFormat d) fs of [] \<Rightarrow> [] | f # _ \<Rightarrow> f)"
  by (induction fs) simp_all

lemma filter_imageFormats_nonempty:
  assumes "filter (hasFormat d) imageFormats = f # rest"
  shows "f \<noteq> []"
proof -
  from assms have "f \<in> set (filter (hasFormat d) imageFormats)" by simp
  then have "f \<in> set imageFormats" by simp
  then show ?thesis by (auto simp: imageFormats_def)
qed

lemma example_payload_formats:
  "hasFormat example_payload ''image/png''"
  "hasFormat example_payload ''image/jpeg''"
  "\<not> hasFormat example_payload ''image/svg+xml''"
  "mimeData example_payload ''image/png'' = [char_of (137::nat), CHR ''P'', CHR ''N'', CHR ''G'']"
  by (simp_all add: example_payload_def hasFormat_def mimeData_def)

lemma example_png_tag:
  "imgTag ''image/png'' [char_of (137::nat), CHR ''P'', CHR ''N'', CHR ''G''] =
     ''<img src='' @ [CHR 0x22] @ ''data:image/png;base64,iVBORw=='' @ [CHR 0x22] @ '' />''"
  by (simp add: imgTag_def toBase64_def base64_digit_def base64_alphabet_def)

section \<open>Committing an edit: \<open>setModelData\<close>\<close>

text \<open>
  C1. For an editor that is a text edit, \<open>setModelData\<close> makes exactly two writes to the
  model, in this order: the empty string to the index (the clearing write, under the
  default edit role), then a map under the \<open>updateData\<close> role. The map has the key
  \<open>text/plain\<close> with the UTF-8 bytes of the editor's plain text; it has the key
  \<open>text/html\<close> if and only if the document has more than three formats, and then with
  the UTF-8 bytes of the editor's html; it has no other key. Afterwards the editor is
  the same text edit with its document's modified flag false.
\<close>

theorem setModelData_text_edit:
  "\<exists>d te'.
     setModelData (TextEditWidget te) model index =
       (TextEditWidget te',
        model\<lparr>writes := writes model @
          [SetData index (VString []) EditRole, SetData index (VMap d) ContentUpdateData]\<rparr>)
     \<and> d ''text/plain'' = Some (VByteArray (toUtf8 (plainText (document te))))
     \<and> (d ''text/html'' \<noteq> None) = (3 < length (allFormats (document te)))
     \<and> (3 < length (allFormats (document te)) \<longrightarrow>
          d ''text/html'' = Some (VByteArray (toUtf8 (richHtml (document te)))))
     \<and> dom d \<subseteq> {''text/plain'', ''text/html''}
     \<and> te' = te\<lparr>document := (document te)\<lparr>isModified := False\<rparr>\<rparr>
     \<and> \<not> isModified (document te')"
proof -
  let ?plain = "Map.empty(''text/plain'' \<mapsto> VByteArray (toUtf8 (plainText (document te))))"
  let ?d = "if 3 < length (allFormats (document te))
            then ?plain(''text/html'' \<mapsto> VByteArray (toUtf8 (richHtml (document te))))
            else ?plain"
  let ?te = "te\<lparr>document := (document te)\<lparr>isModified := False\<rparr>\<rparr>"
  have run: "setModelData (TextEditWidget te) model index =
       (TextEditWidget ?te,
        model\<lparr>writes := writes model @
          [SetData index (VString []) EditRole, SetData index (VMap ?d) ContentUpdateData]\<rparr>)"
    by (simp add: setModelData_def setData_def containsRichText_def Let_def)
  have plain: "?d ''text/plain'' = Some (VByteArray (toUtf8 (plainText (document te))))"
    by simp
  have html: "(?d ''text/html'' \<noteq> None) = (3 < length (allFormats (document te)))"
    by simp
  have html_val: "3 < length (allFormats (document te)) \<longrightarrow>
      ?d ''text/html'' = Some (VByteArray (toUtf8 (richHtml (document te))))"
    by simp
  have keys: "dom ?d \<subseteq> {''text/plain'', ''text/html''}"
    by (simp add: subset_iff dom_def)
  have unmodified: "\<not> isModified (document ?te)"
    by simp
  from run plain html html_val keys unmodified show ?thesis
    by blast
qed

text \<open>
  On the example surface (four formats, modified) the commit writes both keys and
  leaves the document unmodified.
\<close>

theorem setModelData_text_edit_witness:
  "3 < length (allFormats (document example_edit))
   \<and> isModified (document example_edit)
   \<and> (\<exists>d te'.
        setModelData (TextEditWidget example_edit) example_model example_index =
          (TextEditWidget te',
           example_model\<lparr>writes := writes example_model @
             [SetData example_index (VString []) EditRole,
              SetData example_index (VMap d) ContentUpdateData]\<rparr>)
        \<and> d ''text/plain'' = Some (VByteArray (toUtf8 ''abc''))
        \<and> d ''text/html'' = Some (VByteArray (toUtf8 ''<b>abc</b>''))
        \<and> \<not> isModified (document te'))"
proof -
  have rich: "3 < length (allFormats (document example_edit))"
    by (simp add: example_edit_def example_formats_def)
  have texts: "plainText (document example_edit) = ''abc''"
      "richHtml (document example_edit) = ''<b>abc</b>''"
      "isModified (document example_edit)"
    by (simp_all add: example_edit_def)
  from setModelData_text_edit [of example_edit example_model example_index]
  obtain d te' where
    "setModelData (TextEditWidget example_edit) example_model example_index =
       (TextEditWidget te',
        example_model\<lparr>writes := writes example_model @
          [SetData example_index (VString []) EditRole,
           SetData example_index (VMap d) ContentUpdateData]\<rparr>)"
    "d ''text/plain'' = Some (VByteArray (toUtf8 (plainText (document example_edit))))"
    "3 < length (allFormats (document example_edit)) \<longrightarrow>
       d ''text/html'' = Some (VByteArray (toUtf8 (richHtml (document example_edit))))"
    "\<not> isModified (document te')"
    by blast
  with rich texts show ?thesis
    by auto
qed

section \<open>The mouse gate: \<open>filterMouseEvents\<close>\<close>

text \<open>
  C3. \<open>filterMouseEvents\<close> reports an event as handled if and only if it is a press,
  the Shift modifier is held, and the surface reports a non-empty link target under the
  event position. When it is handled, the only outside effect is one call of
  \<open>openUrl\<close>, with that link target; when it is not handled, no link is opened. In
  particular Enter, Move, DoubleClick, Release and other events, and a press without
  Shift, are not handled.
\<close>

theorem filterMouseEvents_handled_iff:
  "(handled (filterMouseEvents edit event) \<longleftrightarrow>
      eventType event = MouseButtonPress
      \<and> modifiers event AND ShiftModifier \<noteq> 0
      \<and> anchorAt edit (eventPos event) \<noteq> [])
   \<and> (handled (filterMouseEvents edit event) \<longrightarrow>
        effects (filterMouseEvents edit event) = [OpenUrl (anchorAt edit (eventPos event))])
   \<and> (\<not> handled (filterMouseEvents edit event) \<longrightarrow>
        (\<forall>url. OpenUrl url \<notin> set (effects (filterMouseEvents edit event))))
   \<and> (eventType event \<in> {Enter, MouseMove, MouseButtonDblClick, MouseButtonRelease, OtherEvent} \<longrightarrow>
        \<not> handled (filterMouseEvents edit event))
   \<and> (eventType event = MouseButtonPress \<and> modifiers event AND ShiftModifier = 0 \<longrightarrow>
        \<not> handled (filterMouseEvents edit event))"
  by (cases "eventType event")
     (auto simp: filterMouseEvents_def filterSwitch_def pressCase_def canMouseInteract_def
         updateInteractionFlags_def Let_def)

text \<open>
  A Shift press on the link of the example surface is handled and opens the link once;
  a Shift double click at the same point is not handled and opens nothing.
\<close>

theorem filterMouseEvents_handled_iff_witness:
  "handled (filterMouseEvents example_edit (example_event MouseButtonPress ShiftModifier))
   \<and> effects (filterMouseEvents example_edit (example_event MouseButtonPress ShiftModifier)) =
       [OpenUrl ''http://example.com'']
   \<and> \<not> handled (filterMouseEvents example_edit (example_event MouseButtonDblClick ShiftModifier))
   \<and> OpenUrl ''http://example.com'' \<notin>
       set (effects (filterMouseEvents example_edit (example_event MouseButtonDblClick ShiftModifier)))"
proof -
  have press: "eventType (example_event MouseButtonPress ShiftModifier) = MouseButtonPress"
      "modifiers (example_event MouseButtonPress ShiftModifier) AND ShiftModifier \<noteq> 0"
      "anchorAt example_edit (eventPos (example_event MouseButtonPress ShiftModifier)) =
         ''http://example.com''"
    by (simp_all add: example_event_def example_edit_def ShiftModifier_def)
  have dbl: "eventType (example_event MouseButtonDblClick ShiftModifier) = MouseButtonDblClick"
    by (simp add: example_event_def)
  from filterMouseEvents_handled_iff [of example_edit "example_event MouseButtonPress ShiftModifier"]
    filterMouseEvents_handled_iff [of example_edit "example_event MouseButtonDblClick ShiftModifier"]
    press dbl
  show ?thesis
    by simp
qed

text \<open>
  C4. A press without the Shift modifier is not handled. Afterwards the surface's
  interaction flags are the previous ones with \<open>TextSelectableByMouse\<close> and
  \<open>LinksAccessibleByMouse\<close> removed, so both are clear whatever they were, and the
  viewport cursor is the default cursor.
\<close>

theorem unmodified_press_not_handled:
  assumes "eventType event = MouseButtonPress"
    and "modifiers event AND ShiftModifier = 0"
  shows "\<not> handled (filterMouseEvents edit event)
    \<and> textInteractionFlags (editAfter (filterMouseEvents edit event)) =
        (textInteractionFlags edit AND NOT TextSelectableByMouse) AND NOT LinksAccessibleByMouse
    \<and> textInteractionFlags (editAfter (filterMouseEvents edit event)) AND TextSelectableByMouse = 0
    \<and> textInteractionFlags (editAfter (filterMouseEvents edit event)) AND LinksAccessibleByMouse = 0
    \<and> viewportCursor (editAfter (filterMouseEvents edit event)) = QCursor_default"
proof -
  have run: "filterMouseEvents edit event =
      \<lparr>handled = False,
       editAfter = edit\<lparr>textInteractionFlags :=
           (textInteractionFlags edit AND NOT TextSelectableByMouse) AND NOT LinksAccessibleByMouse,
         viewportCursor := QCursor_default\<rparr>,
       eventAfter = event, effects = []\<rparr>"
    using assms
    by (simp add: filterMouseEvents_def filterSwitch_def pressCase_def canMouseInteract_def
        updateInteractionFlags_def Let_def)
  show ?thesis
    unfolding run
    by (simp add: cleared_flags_selectable cleared_flags_links)
qed

text \<open>
  On the example surface both flags are set before a plain press and clear after it.
\<close>

theorem unmodified_press_not_handled_witness:
  "eventType (example_event MouseButtonPress 0) = MouseButtonPress
   \<and> modifiers (example_event MouseButtonPress 0) AND ShiftModifier = 0
   \<and> textInteractionFlags example_edit AND TextSelectableByMouse \<noteq> 0
   \<and> textInteractionFlags example_edit AND LinksAccessibleByMouse \<noteq> 0
   \<and> \<not> handled (filterMouseEvents example_edit (example_event MouseButtonPress 0))
   \<and> textInteractionFlags (editAfter (filterMouseEvents example_edit (example_event MouseButtonPress 0)))
        AND TextSelectableByMouse = 0
   \<and> textInteractionFlags (editAfter (filterMouseEvents example_edit (example_event MouseButtonPress 0)))
        AND LinksAccessibleByMouse = 0
   \<and> viewportCursor (editAfter (filterMouseEvents example_edit (example_event MouseButtonPress 0)))
        = ArrowCursor"
proof -
  have h1: "eventType (example_event MouseButtonPress 0) = MouseButtonPress"
    by (simp add: example_event_def)
  have h2: "modifiers (example_event MouseButtonPress 0) AND ShiftModifier = 0"
    by (simp add: example_event_def)
  have before: "textInteractionFlags example_edit AND TextSelectableByMouse \<noteq> 0"
      "textInteractionFlags example_edit AND LinksAccessibleByMouse \<noteq> 0"
    by (simp_all add: example_edit_def TextEditorInteraction_def TextSelectableByMouse_def
        TextSelectableByKeyboard_def TextEditable_def LinksAccessibleByMouse_def)
  note after = unmodified_press_not_handled [OF h1 h2, of example_edit, unfolded QCursor_default_def]
  from after h1 h2 before show ?thesis
    by blast
qed

text \<open>
  C5. On a release, the outside effects are exactly one copy to the clipboard when the
  Shift modifier is held and the text cursor has a selection, and none otherwise. In
  both cases the event is not handled and afterwards the interaction flags are the
  previous ones with \<open>TextSelectableByMouse\<close> and \<open>LinksAccessibleByMouse\<close> removed.
\<close>

theorem release_copies_selection:
  assumes "eventType event = MouseButtonRelease"
  shows "effects (filterMouseEvents edit event) =
      (if modifiers event AND ShiftModifier \<noteq> 0 \<and> hasSelection (textCursor edit)
       then [CopyToClipboard] else [])
    \<and> textInteractionFlags (editAfter (filterMouseEvents edit event)) =
        (textInteractionFlags edit AND NOT TextSelectableByMouse) AND NOT LinksAccessibleByMouse
    \<and> textInteractionFlags (editAfter (filterMouseEvents edit event)) AND TextSelectableByMouse = 0
    \<and> textInteractionFlags (editAfter (filterMouseEvents edit event)) AND LinksAccessibleByMouse = 0
    \<and> \<not> handled (filterMouseEvents edit event)"
proof -
  have run: "filterMouseEvents edit event =
      \<lparr>handled = False,
       editAfter = edit\<lparr>textInteractionFlags :=
           (textInteractionFlags edit AND NOT TextSelectableByMouse) AND NOT LinksAccessibleByMouse\<rparr>,
       eventAfter = event,
       effects = (if canMouseInteract event \<and> hasSelection (textCursor edit)
                  then [CopyToClipboard] else [])\<rparr>"
    using assms
    by (simp add: filterMouseEvents_def filterSwitch_def updateInteractionFlags_def Let_def)
  show ?thesis
    unfolding run
    by (simp add: cleared_flags_selectable cleared_flags_links canMouseInteract_def)
qed

text \<open>
  The example surface has a selection: a Shift release copies once, a plain release
  copies nothing, and both leave the two flags clear.
\<close>

theorem release_copies_selection_witness:
  "hasSelection (textCursor example_edit)
   \<and> effects (filterMouseEvents example_edit (example_event MouseButtonRelease ShiftModifier)) =
       [CopyToClipboard]
   \<and> effects (filterMouseEvents example_edit (example_event MouseButtonRelease 0)) = []
   \<and> textInteractionFlags
       (editAfter (filterMouseEvents example_edit (example_event MouseButtonRelease ShiftModifier)))
       AND TextSelectableByMouse = 0
   \<and> textInteractionFlags
       (editAfter (filterMouseEvents example_edit (example_event MouseButtonRelease ShiftModifier)))
       AND LinksAccessibleByMouse = 0"
proof -
  have sel: "hasSelection (textCursor example_edit)"
    by (simp add: example_edit_def hasSelection_def)
  have rel: "eventType (example_event MouseButtonRelease m) = MouseButtonRelease" for m
    by (simp add: example_event_def)
  have mods: "modifiers (example_event MouseButtonRelease ShiftModifier) AND ShiftModifier \<noteq> 0"
      "modifiers (example_event MouseButtonRelease 0) AND ShiftModifier = 0"
    by (simp_all add: example_event_def ShiftModifier_def)
  have shift: "effects (filterMouseEvents example_edit (example_event MouseButtonRelease ShiftModifier)) =
      [CopyToClipboard]"
    using release_copies_selection [OF rel, of example_edit ShiftModifier] sel mods(1)
    by (simp only: simp_thms if_True)
  have plain: "effects (filterMouseEvents example_edit (example_event MouseButtonRelease 0)) = []"
    using release_copies_selection [OF rel, of example_edit 0] mods(2)
    by (simp only: simp_thms if_False)
  from release_copies_selection [OF rel, of example_edit ShiftModifier] shift plain sel
  show ?thesis
    by blast
qed

section \<open>Pasting images: \<open>insertFromMimeData\<close>\<close>

text \<open>
  C6. The priority list is \<open>image/svg+xml\<close>, \<open>image/png\<close>, \<open>image/bmp\<close>,
  \<open>image/jpeg\<close>, \<open>image/gif\<close>, and \<open>findImageFormat\<close> returns the first entry of
  that list the payload offers (the empty string when it offers none). When some entry
  is offered, \<open>insertFromMimeData\<close> inserts the \<open>img\<close> tag whose source is the
  data URI of that first entry, with the payload's bytes for it in base64. So a payload
  offering PNG and JPEG (and nothing of higher priority, that is, no SVG) embeds the
  PNG bytes; and whatever else is offered, a payload offering PNG never embeds its
  JPEG representation. A payload offering none of the five is handed to the default
  paste handling.
\<close>

theorem insertFromMimeData_priority:
  "imageFormats = [''image/svg+xml'', ''image/png'', ''image/bmp'', ''image/jpeg'', ''image/gif'']
   \<and> findImageFormat d = (case filter (hasFormat d) imageFormats of [] \<Rightarrow> [] | f # _ \<Rightarrow> f)
   \<and> (\<forall>f rest. filter (hasFormat d) imageFormats = f # rest \<longrightarrow>
         insertFromMimeData d = InsertHtml (imgTag f (mimeData d f)))
   \<and> (hasFormat d ''image/png'' \<and> hasFormat d ''image/jpeg'' \<and> \<not> hasFormat d ''image/svg+xml'' \<longrightarrow>
         insertFromMimeData d = InsertHtml (imgTag ''image/png'' (mimeData d ''image/png'')))
   \<and> (hasFormat d ''image/png'' \<longrightarrow>
         insertFromMimeData d \<noteq> InsertHtml (imgTag ''image/jpeg'' (mimeData d ''image/jpeg'')))
   \<and> (filter (hasFormat d) imageFormats = [] \<longrightarrow>
         insertFromMimeData d = DefaultInsertFromMimeData d)"
proof -
  have first: "findImageFormat d = (case filter (hasFormat d) imageFormats of [] \<Rightarrow> [] | f # _ \<Rightarrow> f)"
    by (simp add: findImageFormat_def findImageFormat_loop_first)
  have embed: "\<forall>f rest. filter (hasFormat d) imageFormats = f # rest \<longrightarrow>
         insertFromMimeData d = InsertHtml (imgTag f (mimeData d f))"
  proof (intro allI impI)
    fix f rest
    assume m: "filter (hasFormat d) imageFormats = f # rest"
    then have "findImageFormat d = f" by (simp add: first)
    moreover have "f \<noteq> []" using m by (rule filter_imageFormats_nonempty)
    ultimately show "insertFromMimeData d = InsertHtml (imgTag f (mimeData d f))"
      by (simp add: insertFromMimeData_def Let_def)
  qed
  have png: "hasFormat d ''image/png'' \<and> hasFormat d ''image/jpeg'' \<and> \<not> hasFormat d ''image/svg+xml'' \<longrightarrow>
         insertFromMimeData d = InsertHtml (imgTag ''image/png'' (mimeData d ''image/png''))"
    by (simp add: insertFromMimeData_def findImageFormat_def imageFormats_def Let_def)
  have not_jpeg: "hasFormat d ''image/png'' \<longrightarrow>
         insertFromMimeData d \<noteq> InsertHtml (imgTag ''image/jpeg'' (mimeData d ''image/jpeg''))"
    by (simp add: insertFromMimeData_def findImageFormat_def imageFormats_def Let_def imgTag_def)
  have none: "filter (hasFormat d) imageFormats = [] \<longrightarrow>
         insertFromMimeData d = DefaultInsertFromMimeData d"
    by (simp add: insertFromMimeData_def first Let_def)
  from first embed png not_jpeg none show ?thesis
    by (simp add: imageFormats_def)
qed

text \<open>
  The example payload offers PNG and JPEG: the PNG bytes are embedded. The example text
  payload offers no image format: the default handling gets it.
\<close>

theorem insertFromMimeData_priority_witness:
  "hasFormat example_payload ''image/png''
   \<and> hasFormat example_payload ''image/jpeg''
   \<and> \<not> hasFormat example_payload ''image/svg+xml''
   \<and> insertFromMimeData example_payload =
       InsertHtml (''<img src='' @ [CHR 0x22] @ ''data:image/png;base64,iVBORw=='' @ [CHR 0x22] @ '' />'')
   \<and> filter (hasFormat example_text_payload) imageFormats = []
   \<and> insertFromMimeData example_text_payload = DefaultInsertFromMimeData example_text_payload"
proof -
  have no_image: "filter (hasFormat example_text_payload) imageFormats = []"
    by (simp add: example_text_payload_def hasFormat_def imageFormats_def)
  from insertFromMimeData_priority [of example_payload]
    insertFromMimeData_priority [of example_text_payload]
    example_payload_formats no_image
  show ?thesis
    by (simp add: example_png_tag)
qed

section \<open>Sizing: \<open>updateSize\<close>\<close>

text \<open>
  C7. \<open>updateSize\<close> sets the maximum size and then makes exactly one more geometry
  call, decided by the widget's height for the ideal width and its height for the
  maximum width: when both are at most zero it resizes to the size hint; otherwise,
  when the two heights are equal, it fixes the size to the ideal width and the ideal
  height; otherwise it fixes the size to the maximum width and the height for it.
\<close>

theorem updateSize_policy:
  "geometryCalls (m_widget (updateSize maximumSize idealWidth iw)) =
     geometryCalls (m_widget iw) @
       [SetMaximumSize maximumSize,
        (let idealHeight = heightForWidth (m_widget iw) idealWidth;
             maximumHeight = heightForWidth (m_widget iw) (width maximumSize)
         in if sint idealHeight \<le> 0 \<and> sint maximumHeight \<le> 0
              then Resize (sizeHint (m_widget iw))
            else if idealHeight = maximumHeight
              then SetFixedSize idealWidth idealHeight
            else SetFixedSize (width maximumSize) maximumHeight)]"
  by (simp add: updateSize_def geometryCall_def Let_def)

text \<open>
  The example widget is 40 high at width 100 and 20 high at any other width: with ideal
  width 50 and maximum width 100 the heights differ and the maximum width is taken;
  with maximum width 60 they agree and the ideal width is taken.
\<close>

theorem updateSize_policy_witness:
  "geometryCalls (m_widget (updateSize \<lparr>width = 100, height = 300\<rparr> 50 (ItemWidget_new example_widget))) =
     [SetMaximumSize \<lparr>width = 2048, height = 2048\<rparr>,
      SetMaximumSize \<lparr>width = 100, height = 300\<rparr>, SetFixedSize 100 40]
   \<and> geometryCalls (m_widget (updateSize \<lparr>width = 60, height = 300\<rparr> 50 (ItemWidget_new example_widget))) =
     [SetMaximumSize \<lparr>width = 2048, height = 2048\<rparr>,
      SetMaximumSize \<lparr>width = 60, height = 300\<rparr>, SetFixedSize 50 20]"
  using updateSize_policy [of "\<lparr>width = 100, height = 300\<rparr>" 50 "ItemWidget_new example_widget"]
    updateSize_policy [of "\<lparr>width = 60, height = 300\<rparr>" 50 "ItemWidget_new example_widget"]
  by (simp add: ItemWidget_new_def example_widget_def)

section \<open>Highlighting: \<open>setHighlight\<close>\<close>

text \<open>
  C8. After a call of \<open>setHighlight\<close>, a second call with an equal pattern, font and
  palette changes nothing: the widget after the two calls is the widget after the
  first, so \<open>highlight\<close> has run no further time, and over the two calls together it
  has run at most once.
\<close>

theorem setHighlight_second_call_noop:
  "setHighlight re f p (setHighlight re f p w) = setHighlight re f p w
   \<and> (\<exists>calls. highlightCalls (setHighlight re f p (setHighlight re f p w)) = highlightCalls w @ calls
         \<and> length calls \<le> 1)"
  by (simp add: setHighlight_def highlight_def)

text \<open>On a new item widget the two calls together highlight once.\<close>

theorem setHighlight_second_call_noop_witness:
  "highlightCalls
     (setHighlight example_regexp (example_font False) example_palette
        (setHighlight example_regexp (example_font False) example_palette
           (ItemWidget_new example_widget))) =
     [(example_regexp, example_font False, example_palette)]"
proof -
  have first: "highlightCalls
      (setHighlight example_regexp (example_font False) example_palette (ItemWidget_new example_widget)) =
      [(example_regexp, example_font False, example_palette)]"
    by (simp add: setHighlight_def highlight_def ItemWidget_new_def QRegExp_default_def
        example_regexp_def)
  from setHighlight_second_call_noop
    [of example_regexp "example_font False" example_palette "ItemWidget_new example_widget"] first
  show ?thesis
    by simp
qed

text \<open>
  C10. \<open>setHighlight\<close> compares the pattern only. A call whose pattern equals the
  stored \<open>m_re\<close> returns the item widget unchanged (no call of \<open>highlight\<close>, same
  stored pattern), whatever font and palette it is given.
\<close>

theorem setHighlight_same_pattern_noop:
  "m_re w = re \<Longrightarrow> setHighlight re highlightFont highlightPalette w = w"
  by (simp add: setHighlight_def)

text \<open>
  After highlighting with the regular font, a call with the same pattern and the bold
  font is ignored.
\<close>

theorem setHighlight_same_pattern_noop_witness:
  "example_font True \<noteq> example_font False
   \<and> m_re (setHighlight example_regexp (example_font False) example_palette
        (ItemWidget_new example_widget)) = example_regexp
   \<and> setHighlight example_regexp (example_font True) example_palette
       (setHighlight example_regexp (example_font False) example_palette
          (ItemWidget_new example_widget)) =
     setHighlight example_regexp (example_font False) example_palette (ItemWidget_new example_widget)"
proof -
  have stored: "m_re (setHighlight example_regexp (example_font False) example_palette
        (ItemWidget_new example_widget)) = example_regexp"
    by (simp add: setHighlight_def highlight_def)
  have fonts: "example_font True \<noteq> example_font False"
    by (simp add: example_font_def)
  from setHighlight_same_pattern_noop [OF stored, of "example_font True" example_palette]
    stored fonts
  show ?thesis
    by simp
qed

section \<open>Editors that are not text edits\<close>

text \<open>
  C9. When the editor is not a text edit (the cast gives null: a null pointer or some
  other widget), \<open>setEditorData\<close> returns it unchanged, \<open>setModelData\<close> returns it
  and the model unchanged (no write), and \<open>hasChanges\<close> is false; none of the three
  has a failing branch. \<open>hasChanges\<close> is true if and only if the editor is a text edit
  whose document's modified flag is set.
\<close>

theorem non_text_editors_ignored:
  "(qobject_cast_QTextEdit editor = None \<longrightarrow>
      setEditorData tk editor index = editor
      \<and> setModelData editor model index = (editor, model)
      \<and> \<not> hasChanges editor)
   \<and> qobject_cast_QTextEdit NullWidget = None
   \<and> qobject_cast_QTextEdit (OtherWidget w) = None
   \<and> hasChanges editor = (\<exists>te. editor = TextEditWidget te \<and> isModified (document te))"
  by (cases editor)
     (simp_all add: setEditorData_def setModelData_def hasChanges_def document_ptr_def)

text \<open>
  A null editor and the example display widget are ignored; the modified example
  surface has changes, and has none after its commit.
\<close>

theorem non_text_editors_ignored_witness:
  "setEditorData example_toolkit NullWidget example_index = NullWidget
   \<and> setModelData NullWidget example_model example_index = (NullWidget, example_model)
   \<and> \<not> hasChanges NullWidget
   \<and> setModelData (OtherWidget example_widget) example_model example_index =
       (OtherWidget example_widget, example_model)
   \<and> \<not> hasChanges (OtherWidget example_widget)
   \<and> hasChanges (TextEditWidget example_edit)"
proof -
  have modified: "isModified (document example_edit)"
    by (simp add: example_edit_def)
  from non_text_editors_ignored [of NullWidget example_toolkit example_index example_model example_widget]
    non_text_editors_ignored [of "OtherWidget example_widget" example_toolkit example_index
      example_model example_widget]
    non_text_editors_ignored [of "TextEditWidget example_edit" example_toolkit example_index
      example_model example_widget]
    modified
  show ?thesis
    by simp
qed

end
